theory Spec2Isabelle
  imports Main "HOL-Library.Word"
begin

unbundle bit_operations_syntax

section \<open>Values of the program\<close>

text \<open>
  The program is \<^verbatim>\<open>src/deepinfra.py\<close>: a script that reads a credential from the
  environment, sends one HTTP POST, parses the JSON answer, extracts and decodes a
  base64 audio string, writes it to a file and optionally plays it.

  A Python \<^verbatim>\<open>str\<close> is modelled as a \<open>string\<close>, one \<open>char\<close> per code point. The
  program only compares characters with \<^verbatim>\<open>","\<close> and \<^verbatim>\<open>"="\<close>, counts them, and hands
  them to the base64 decoder, which rejects every code point above 127 alike; so a
  \<open>char\<close> above 127 stands for any non-ASCII code point. A Python \<^verbatim>\<open>bytes\<close> value is
  a list of 8-bit words.
\<close>

type_synonym bytes = "8 word list"

text \<open>
  A Python \<^verbatim>\<open>float\<close> as \<^verbatim>\<open>json.loads\<close> produces it: a finite value \<open>m * 2 ^ e\<close>, an
  infinity or a NaN. The program only tests floats for truth.
\<close>

datatype pyfloat = Finite int int | Infinite bool | NaN

text \<open>
  What \<^verbatim>\<open>resp.json()\<close> can return. A \<^verbatim>\<open>dict\<close> is an association list read with
  \<open>map_of\<close>: the first binding of a key is the dictionary's value for it.
\<close>

datatype json =
    JNull
  | JBool bool
  | JInt int
  | JFloat pyfloat
  | JStr string
  | JList "json list"
  | JDict "(string \<times> json) list"

text \<open>Python's truth test (\<^verbatim>\<open>not x\<close> is its negation).\<close>

fun truthy :: "json \<Rightarrow> bool" where
  "truthy JNull = False"
| "truthy (JBool b) = b"
| "truthy (JInt i) = (i \<noteq> 0)"
| "truthy (JFloat (Finite m e)) = (m \<noteq> 0)"
| "truthy (JFloat (Infinite s)) = True"
| "truthy (JFloat NaN) = True"
| "truthy (JStr s) = (s \<noteq> [])"
| "truthy (JList xs) = (xs \<noteq> [])"
| "truthy (JDict d) = (d \<noteq> [])"

text \<open>\<^verbatim>\<open>d.get(k)\<close>: the value, or \<^verbatim>\<open>None\<close> when the key is absent.\<close>

definition dict_get :: "(string \<times> json) list \<Rightarrow> string \<Rightarrow> json" where
  "dict_get d k = (case map_of d k of None \<Rightarrow> JNull | Some v \<Rightarrow> v)"

text \<open>The exceptions that occur in the program.\<close>

datatype exn =
    AttributeError
  | UnboundLocalError
  | ValueError
  | BinasciiError

section \<open>The standard library's base64 decoder\<close>

text \<open>
  \<^verbatim>\<open>base64.b64decode(s)\<close> with its default arguments, on a \<^verbatim>\<open>str\<close>: the string is
  encoded as ASCII (\<^verbatim>\<open>ValueError\<close> on a code point above 127) and given to
  \<^verbatim>\<open>binascii.a2b_base64\<close> in non-strict mode. This is CPython's decoder, not code of the
  repository; the definitions below follow its C loop statement by statement.
\<close>

text \<open>\<^verbatim>\<open>table_a2b_base64\<close>: the 6-bit value of an alphabet character, 64 for any other.\<close>

definition table_a2b_base64 :: "char \<Rightarrow> 8 word" where
  "table_a2b_base64 c =
     (let n = (of_char c :: nat) in
      if 65 \<le> n \<and> n \<le> 90 then of_nat (n - 65)
      else if 97 \<le> n \<and> n \<le> 122 then of_nat (n - 71)
      else if 48 \<le> n \<and> n \<le> 57 then of_nat (n + 4)
      else if n = 43 then 62
      else if n = 47 then 63
      else 64)"

text \<open>
  The loop of \<^verbatim>\<open>a2b_base64\<close> over the remaining input, with its variables
  \<^verbatim>\<open>quad_pos\<close>, \<^verbatim>\<open>leftchar\<close>, \<^verbatim>\<open>pads\<close> and the bytes written so far. A pad character
  that completes a quad ends the decoding (\<^verbatim>\<open>goto done\<close>); other pad characters and
  characters outside the alphabet are skipped; input that ends inside a quad is an error.
\<close>

fun a2b_loop :: "nat \<Rightarrow> 8 word \<Rightarrow> nat \<Rightarrow> bytes \<Rightarrow> string \<Rightarrow> exn + bytes" where
  "a2b_loop quad_pos leftchar pads out [] =
     (if quad_pos \<noteq> 0 then Inl BinasciiError else Inr out)"
| "a2b_loop quad_pos leftchar pads out (c # cs) =
     (if c = CHR ''='' then
        (if quad_pos \<ge> 2 then
           (if quad_pos + (pads + 1) \<ge> 4 then Inr out
            else a2b_loop quad_pos leftchar (pads + 1) out cs)
         else a2b_loop quad_pos leftchar pads out cs)
      else
        (let this_ch = table_a2b_base64 c in
         if this_ch \<ge> 64 then a2b_loop quad_pos leftchar pads out cs
         else if quad_pos = 0 then a2b_loop 1 this_ch 0 out cs
         else if quad_pos = 1 then
           a2b_loop 2 (this_ch AND 0x0f) 0
             (out @ [push_bit 2 leftchar OR drop_bit 4 this_ch]) cs
         else if quad_pos = 2 then
           a2b_loop 3 (this_ch AND 0x03) 0
             (out @ [push_bit 4 leftchar OR drop_bit 2 this_ch]) cs
         else
           a2b_loop 0 0 0 (out @ [push_bit 6 leftchar OR this_ch]) cs))"

definition a2b_base64 :: "string \<Rightarrow> exn + bytes" where
  "a2b_base64 s = a2b_loop 0 0 0 [] s"

definition b64decode :: "string \<Rightarrow> exn + bytes" where
  "b64decode s =
     (if \<exists>c \<in> set s. (of_char c :: nat) \<ge> 128 then Inl ValueError
      else a2b_base64 s)"

section \<open>Audio extraction\<close>

text \<open>\<^verbatim>\<open>s.split(sep, 1)\<close> for a one-character separator: at most one split, at the first occurrence.\<close>

definition split_once :: "char \<Rightarrow> string \<Rightarrow> string list" where
  "split_once sep s =
     (if sep \<in> set s
      then [takeWhile (\<lambda>c. c \<noteq> sep) s, tl (dropWhile (\<lambda>c. c \<noteq> sep) s)]
      else [s])"

text \<open>
  Lines 43 to 49 of \<^verbatim>\<open>_extract_base64_audio\<close>: the top-level \<^verbatim>\<open>audio\<close> value, replaced
  by \<^verbatim>\<open>output[0].get("audio")\<close> when it is falsy, \<^verbatim>\<open>output\<close> is a non-empty list and
  its first element is a dict.
\<close>

definition select_audio_field :: "(string \<times> json) list \<Rightarrow> json" where
  "select_audio_field payload_dict =
     (let audio_field = dict_get payload_dict ''audio'' in
      if \<not> truthy audio_field then
        (case dict_get payload_dict ''output'' of
           JList arr \<Rightarrow>
             (case arr of
                JDict first # rest \<Rightarrow> dict_get first ''audio''
              | _ \<Rightarrow> audio_field)
         | _ \<Rightarrow> audio_field)
      else audio_field)"

text \<open>Lines 55 and 56: drop a data-URL prefix.\<close>

definition strip_data_url :: "string \<Rightarrow> string" where
  "strip_data_url audio_field =
     (if CHR '','' \<in> set audio_field then split_once CHR '','' audio_field ! 1
      else audio_field)"

text \<open>Lines 59 to 61: pad to a multiple of four characters.\<close>

definition fix_padding :: "string \<Rightarrow> string" where
  "fix_padding audio_field =
     (let pad = length audio_field mod 4 in
      if pad \<noteq> 0 then audio_field @ replicate (4 - pad) CHR ''='' else audio_field)"

text \<open>
  Lines 51 to 66, on the selected value: \<^verbatim>\<open>None\<close> unless it is a non-empty
  string; otherwise the string without its data-URL prefix, padded, is decoded, and
  every exception of the decoder is caught on line 65 and becomes \<^verbatim>\<open>None\<close>.
\<close>

definition decode_audio_field :: "json \<Rightarrow> bytes option" where
  "decode_audio_field audio_field =
     (case audio_field of
        JStr s \<Rightarrow>
          (if s = [] then None
           else
             (case b64decode (fix_padding (strip_data_url s)) of
                Inl e \<Rightarrow> None
              | Inr bs \<Rightarrow> Some bs))
      | _ \<Rightarrow> None)"

text \<open>
  \<^verbatim>\<open>_extract_base64_audio\<close>. The result is \<open>Inl\<close> for an exception that leaves the
  function, \<open>Inr None\<close> for the return value \<^verbatim>\<open>None\<close> and \<open>Inr (Some bs)\<close> for bytes.
  Only a dict has a method \<^verbatim>\<open>get\<close>: on every other value line 43 raises
  \<^verbatim>\<open>AttributeError\<close>.
\<close>

definition extract_base64_audio :: "json \<Rightarrow> exn + bytes option" where
  "extract_base64_audio data =
     (case data of
        JDict payload_dict \<Rightarrow> Inr (decode_audio_field (select_audio_field payload_dict))
      | _ \<Rightarrow> Inl AttributeError)"

section \<open>The script\<close>

text \<open>The module-level constants, lines 19 to 24.\<close>

definition TEXT :: string where
  "TEXT = ''Oh my god dominik. I love it when you do that. Oh my god. It'' @ [CHR 0x27] @ ''s so good.''"

definition VOICE :: string where
  "VOICE = ''af_bella''"

definition FORMAT :: string where
  "FORMAT = ''wav''"

definition OUTFILE :: string where
  "OUTFILE = ''kokoro_out.'' @ FORMAT"

definition URL :: string where
  "URL = ''https://api.deepinfra.com/v1/inference/hexgrad/Kokoro-82M''"

text \<open>Lines 10 to 13: \<^verbatim>\<open>os.getenv(..) or os.getenv(..)\<close>; \<open>None\<close> is Python's \<^verbatim>\<open>None\<close>.\<close>

definition API_KEY :: "(string \<rightharpoonup> string) \<Rightarrow> string option" where
  "API_KEY environ =
     (case environ ''DEEPINFRA_API_KEY'' of
        None \<Rightarrow> environ ''DEEPINFRA_API_TOKEN''
      | Some k \<Rightarrow> if k \<noteq> [] then Some k else environ ''DEEPINFRA_API_TOKEN'')"

text \<open>Lines 25 to 34.\<close>

definition headers :: "string \<Rightarrow> (string \<times> string) list" where
  "headers api_key =
     [(''Authorization'', ''bearer '' @ api_key),
      (''Content-Type'', ''application/json'')]"

definition payload :: "(string \<times> string) list" where
  "payload = [(''text'', TEXT), (''voice'', VOICE), (''output_format'', FORMAT)]"

text \<open>The arguments of the call \<^verbatim>\<open>requests.post(URL, headers=.., json=.., timeout=..)\<close>.\<close>

record request =
  url :: string
  request_headers :: "(string \<times> string) list"
  json_body :: "(string \<times> string) list"
  timeout :: nat

record response =
  status_code :: nat
  text_of :: string

text \<open>The request of line 70.\<close>

definition the_request :: "string \<Rightarrow> request" where
  "the_request api_key =
     \<lparr>url = URL, request_headers = headers api_key, json_body = payload, timeout = 60\<rparr>"

text \<open>
  The call either raises a \<^verbatim>\<open>RequestException\<close> (connection error, timeout; the string
  is its message) and assigns nothing, or returns a response.
\<close>

datatype post_result = Raises string | Returns response

text \<open>
  What the script reads from outside itself: the environment variables, the answer of
  the network to the request, the library functions \<^verbatim>\<open>json.loads\<close> (behind
  \<^verbatim>\<open>resp.json()\<close>, \<open>None\<close> when it raises \<^verbatim>\<open>JSONDecodeError\<close>) and
  \<^verbatim>\<open>json.dumps(.., indent=2)\<close>, the message of the \<^verbatim>\<open>HTTPError\<close> that
  \<^verbatim>\<open>raise_for_status\<close> builds, and the two tests of line 93.
\<close>

record world =
  environ :: "string \<rightharpoonup> string"
  requests_post :: "request \<Rightarrow> post_result"
  http_error_msg :: "response \<Rightarrow> string"
  json_loads :: "string \<Rightarrow> json option"
  json_dumps :: "json \<Rightarrow> string"
  platform_is_darwin :: bool
  which_afplay :: bool

text \<open>
  How a run ends: \<^verbatim>\<open>sys.exit(n)\<close> or the end of the script (status 0), or an exception
  that nothing catches, on which the interpreter prints a traceback and exits with
  status 1.
\<close>

datatype exit_status = Exited nat | Uncaught exn

fun exit_code :: "exit_status \<Rightarrow> nat" where
  "exit_code (Exited n) = n"
| "exit_code (Uncaught e) = 1"

text \<open>
  What a run does: the text printed to standard output, the requests handed to
  \<^verbatim>\<open>requests.post\<close>, the files after the run, the commands started and the way it
  ended.
\<close>

record outcome =
  stdout :: string
  requests_sent :: "request list"
  files :: "string \<rightharpoonup> bytes"
  commands_run :: "string list list"
  exit_status :: exit_status

text \<open>\<^verbatim>\<open>print(a, b, ..)\<close>: the arguments separated by a space, then a newline.\<close>

fun join_args :: "string list \<Rightarrow> string" where
  "join_args [] = []"
| "join_args [a] = a"
| "join_args (a # b # bs) = a @ '' '' @ join_args (b # bs)"

definition py_print :: "string list \<Rightarrow> string" where
  "py_print args = join_args args @ [CHR 0x0A]"

text \<open>
  Line 73, the handler of \<^verbatim>\<open>RequestException\<close>: the local variable \<^verbatim>\<open>resp\<close> is read
  while the message is built. It is \<open>None\<close> here when line 70 raised before
  assigning it, and reading an unassigned local raises \<^verbatim>\<open>UnboundLocalError\<close>
  (the default of \<^verbatim>\<open>getattr\<close> covers a missing attribute, not a missing variable).
\<close>

definition http_error_report :: "string \<Rightarrow> response option \<Rightarrow> exn + string" where
  "http_error_report e resp =
     (case resp of
        None \<Rightarrow> Inl UnboundLocalError
      | Some r \<Rightarrow>
          Inr (py_print [''HTTP error: '' @ e @ [CHR 0x0A] @ ''Body: '' @ take 500 (text_of r)]))"

text \<open>Lines 84 to 86: the diagnostic printed when there is no audio.\<close>

definition no_audio_report :: "world \<Rightarrow> json \<Rightarrow> string" where
  "no_audio_report w data =
     py_print [''No decodable audio in response. Full payload follows:'' @ [CHR 0x0A],
               take 2000 (json_dumps w data)]"

text \<open>
  \<^verbatim>\<open>main\<close>, lines 68 to 96, run with the files \<open>fs\<close> present.
  \<^verbatim>\<open>raise_for_status\<close> raises \<^verbatim>\<open>HTTPError\<close> for a status from 400 to 599.
  Line 83 tests \<^verbatim>\<open>not audio_bytes\<close>, true of \<^verbatim>\<open>None\<close> and of the empty bytes.
  Opening and writing the file are taken to succeed.
\<close>

definition main :: "world \<Rightarrow> string \<Rightarrow> (string \<rightharpoonup> bytes) \<Rightarrow> outcome" where
  "main w api_key fs =
     (let req = the_request api_key;
          sent = \<lparr>stdout = [], requests_sent = [req], files = fs, commands_run = [],
                 exit_status = Exited 0\<rparr>;
          request_failed = (\<lambda>e resp.
            case http_error_report e resp of
              Inl x \<Rightarrow> sent\<lparr>exit_status := Uncaught x\<rparr>
            | Inr msg \<Rightarrow> sent\<lparr>stdout := msg, exit_status := Exited 1\<rparr>)
      in
      case requests_post w req of
        Raises e \<Rightarrow> request_failed e None
      | Returns resp \<Rightarrow>
          if 400 \<le> status_code resp \<and> status_code resp < 600
          then request_failed (http_error_msg w resp) (Some resp)
          else
            (case json_loads w (text_of resp) of
               None \<Rightarrow>
                 sent\<lparr>stdout := py_print [''Non-JSON response:'' @ [CHR 0x0A],
                                          take 500 (text_of resp)],
                      exit_status := Exited 1\<rparr>
             | Some data \<Rightarrow>
                 (case extract_base64_audio data of
                    Inl x \<Rightarrow> sent\<lparr>exit_status := Uncaught x\<rparr>
                  | Inr None \<Rightarrow>
                      sent\<lparr>stdout := no_audio_report w data, exit_status := Exited 1\<rparr>
                  | Inr (Some audio_bytes) \<Rightarrow>
                      if audio_bytes = []
                      then sent\<lparr>stdout := no_audio_report w data, exit_status := Exited 1\<rparr>
                      else
                        (let written = sent\<lparr>files := fs(OUTFILE \<mapsto> audio_bytes),
                                            stdout := py_print [''Wrote '' @ OUTFILE]\<rparr>
                         in
                         if platform_is_darwin w \<and> which_afplay w
                         then written\<lparr>commands_run := [[''afplay'', OUTFILE]]\<rparr>
                         else written\<lparr>stdout := stdout written @
                           py_print [''Open the file to listen (e.g., `open '' @ OUTFILE
                                     @ ''` on macOS).'']\<rparr>))))"

text \<open>
  The whole script, run as \<^verbatim>\<open>__main__\<close>: lines 10 to 16, then \<^verbatim>\<open>main()\<close>.
\<close>

definition run :: "world \<Rightarrow> (string \<rightharpoonup> bytes) \<Rightarrow> outcome" where
  "run w fs =
     (case API_KEY (environ w) of
        None \<Rightarrow>
          \<lparr>stdout = py_print [''Set DEEPINFRA_API_KEY or DEEPINFRA_API_TOKEN first.''],
           requests_sent = [], files = fs, commands_run = [], exit_status = Exited 1\<rparr>
      | Some k \<Rightarrow>
          if k = [] then
            \<lparr>stdout = py_print [''Set DEEPINFRA_API_KEY or DEEPINFRA_API_TOKEN first.''],
             requests_sent = [], files = fs, commands_run = [], exit_status = Exited 1\<rparr>
          else main w k fs)"

section \<open>Notions used to state the properties\<close>

text \<open>
  The script receives \<open>data\<close>: the credential resolves, the request returns a response
  that passes \<^verbatim>\<open>raise_for_status\<close>, and \<^verbatim>\<open>resp.json()\<close> yields \<open>data\<close>.
\<close>

definition receives :: "world \<Rightarrow> json \<Rightarrow> bool" where
  "receives w data =
     (case API_KEY (environ w) of
        None \<Rightarrow> False
      | Some k \<Rightarrow>
          k \<noteq> [] \<and>
          (case requests_post w (the_request k) of
             Raises e \<Rightarrow> False
           | Returns resp \<Rightarrow>
               \<not> (400 \<le> status_code resp \<and> status_code resp < 600)
               \<and> json_loads w (text_of resp) = Some data))"

text \<open>
  The two shapes of the specification, read off a response object: the top-level
  field \<^verbatim>\<open>audio\<close> when it is a string, and the field \<^verbatim>\<open>audio\<close> of the first element of
  \<^verbatim>\<open>output\<close> when \<^verbatim>\<open>output\<close> is a non-empty list, that element is an object and the
  field is a string.
\<close>

definition top_level_audio_string :: "(string \<times> json) list \<Rightarrow> string option" where
  "top_level_audio_string d =
     (case map_of d ''audio'' of Some (JStr s) \<Rightarrow> Some s | _ \<Rightarrow> None)"

definition output_audio_string :: "(string \<times> json) list \<Rightarrow> string option" where
  "output_audio_string d =
     (case map_of d ''output'' of
        Some (JList (JDict e # rest)) \<Rightarrow>
          (case map_of e ''audio'' of Some (JStr s) \<Rightarrow> Some s | _ \<Rightarrow> None)
      | _ \<Rightarrow> None)"

text \<open>
  The standard base64 encoding (RFC 4648) of a byte string, which the round-trip
  property speaks of; the script itself never encodes. Three bytes give four
  characters of the alphabet, and a last group of one or two bytes is completed with
  \<^verbatim>\<open>=\<close>. Every index into the alphabet below is a 6-bit value.
\<close>

definition table_b2a_base64 :: string where
  "table_b2a_base64 = ''ABCDEFGHIJKLMNOPQRSTUVWXYZabcdefghijklmnopqrstuvwxyz0123456789+/''"

definition b2a :: "8 word \<Rightarrow> char" where
  "b2a v = table_b2a_base64 ! unat v"

fun b64encode :: "bytes \<Rightarrow> string" where
  "b64encode [] = []"
| "b64encode [a] =
     [b2a (drop_bit 2 a), b2a (push_bit 4 (a AND 3)), CHR ''='', CHR ''='']"
| "b64encode [a, b] =
     [b2a (drop_bit 2 a), b2a (push_bit 4 (a AND 3) OR drop_bit 4 b),
      b2a (push_bit 2 (b AND 15)), CHR ''='']"
| "b64encode (a # b # c # rest) =
     [b2a (drop_bit 2 a), b2a (push_bit 4 (a AND 3) OR drop_bit 4 b),
      b2a (push_bit 2 (b AND 15) OR drop_bit 6 c), b2a (c AND 63)] @ b64encode rest"

section \<open>Concrete surroundings\<close>

text \<open>
  Two families of surroundings for concrete runs. In \<open>reply code parsed\<close> the
  credential is set and the service answers every request with status \<open>code\<close> and a
  body that \<^verbatim>\<open>resp.json()\<close> parses to \<open>parsed\<close>. In \<open>no_reply env\<close> the environment is
  \<open>env\<close> and every request times out.
\<close>

definition reply :: "nat \<Rightarrow> json option \<Rightarrow> world" where
  "reply code parsed =
     \<lparr>environ = [''DEEPINFRA_API_KEY'' \<mapsto> ''secret''],
      requests_post = (\<lambda>req. Returns \<lparr>status_code = code, text_of = ''body''\<rparr>),
      http_error_msg = (\<lambda>resp. ''error''),
      json_loads = (\<lambda>s. parsed),
      json_dumps = (\<lambda>data. ''dump''),
      platform_is_darwin = False,
      which_afplay = False\<rparr>"

definition no_reply :: "(string \<rightharpoonup> string) \<Rightarrow> world" where
  "no_reply env =
     \<lparr>environ = env,
      requests_post = (\<lambda>req. Raises ''timed out''),
      http_error_msg = (\<lambda>resp. ''error''),
      json_loads = (\<lambda>s. None),
      json_dumps = (\<lambda>data. ''dump''),
      platform_is_darwin = False,
      which_afplay = False\<rparr>"

section \<open>Credential resolution\<close>

lemma API_KEY_falsy:
  "(environ w ''DEEPINFRA_API_KEY'' = None \<or> environ w ''DEEPINFRA_API_KEY'' = Some []) \<Longrightarrow>
   (environ w ''DEEPINFRA_API_TOKEN'' = None \<or> environ w ''DEEPINFRA_API_TOKEN'' = Some []) \<Longrightarrow>
   API_KEY (environ w) = None \<or> API_KEY (environ w) = Some []"
  by (auto simp: API_KEY_def)

lemma API_KEY_resolved:
  assumes "t \<noteq> []"
    and "environ w ''DEEPINFRA_API_KEY'' = Some t \<or>
      ((environ w ''DEEPINFRA_API_KEY'' = None \<or> environ w ''DEEPINFRA_API_KEY'' = Some [])
        \<and> environ w ''DEEPINFRA_API_TOKEN'' = Some t)"
  shows "API_KEY (environ w) = Some t"
  using assms by (auto simp: API_KEY_def)

lemma run_main: "API_KEY (environ w) = Some k \<Longrightarrow> k \<noteq> [] \<Longrightarrow> run w fs = main w k fs"
  by (simp add: run_def)

lemma requests_sent_main:
  "requests_sent (main w k fs) = [the_request k]"
  by (simp add: main_def Let_def split: post_result.split option.split sum.split)

text \<open>
  C3. When each of the two environment variables is unset or empty, the script prints
  its hint and exits with status 1; no request was sent, no file touched and no
  command started.
\<close>

theorem missing_credential_exits_before_network:
  assumes "environ w ''DEEPINFRA_API_KEY'' = None \<or> environ w ''DEEPINFRA_API_KEY'' = Some []"
    and "environ w ''DEEPINFRA_API_TOKEN'' = None \<or> environ w ''DEEPINFRA_API_TOKEN'' = Some []"
  shows "exit_status (run w fs) = Exited 1 \<and> exit_code (exit_status (run w fs)) \<noteq> 0
       \<and> requests_sent (run w fs) = [] \<and> files (run w fs) = fs \<and> commands_run (run w fs) = []"
  using API_KEY_falsy [OF assms] by (auto simp: run_def)

theorem missing_credential_witness:
  "(environ (no_reply Map.empty) ''DEEPINFRA_API_KEY'' = None)
   \<and> (environ (no_reply Map.empty) ''DEEPINFRA_API_TOKEN'' = None)
   \<and> exit_status (run (no_reply Map.empty) Map.empty) = Exited 1
   \<and> requests_sent (run (no_reply Map.empty) Map.empty) = []
   \<and> environ (no_reply [''DEEPINFRA_API_KEY'' \<mapsto> [], ''DEEPINFRA_API_TOKEN'' \<mapsto> []]) ''DEEPINFRA_API_KEY'' = Some []
   \<and> environ (no_reply [''DEEPINFRA_API_KEY'' \<mapsto> [], ''DEEPINFRA_API_TOKEN'' \<mapsto> []]) ''DEEPINFRA_API_TOKEN'' = Some []
   \<and> exit_status (run (no_reply [''DEEPINFRA_API_KEY'' \<mapsto> [], ''DEEPINFRA_API_TOKEN'' \<mapsto> []]) Map.empty) = Exited 1
   \<and> requests_sent (run (no_reply [''DEEPINFRA_API_KEY'' \<mapsto> [], ''DEEPINFRA_API_TOKEN'' \<mapsto> []]) Map.empty) = []"
  using missing_credential_exits_before_network [of "no_reply Map.empty" Map.empty]
    missing_credential_exits_before_network
      [of "no_reply [''DEEPINFRA_API_KEY'' \<mapsto> [], ''DEEPINFRA_API_TOKEN'' \<mapsto> []]" Map.empty]
  by (simp add: no_reply_def)
text \<open>
  C8. A non-empty token in \<^verbatim>\<open>DEEPINFRA_API_KEY\<close>, or in \<^verbatim>\<open>DEEPINFRA_API_TOKEN\<close> when the
  first variable is unset or empty, is sent in the one request of the run, whose
  \<^verbatim>\<open>Authorization\<close> header is \<^verbatim>\<open>bearer\<close>, a space and the token.
\<close>

theorem authorization_header_is_bearer_token:
  assumes "token \<noteq> []"
    and "environ w ''DEEPINFRA_API_KEY'' = Some token \<or>
      ((environ w ''DEEPINFRA_API_KEY'' = None \<or> environ w ''DEEPINFRA_API_KEY'' = Some [])
        \<and> environ w ''DEEPINFRA_API_TOKEN'' = Some token)"
  shows "map (\<lambda>req. map_of (request_headers req) ''Authorization'') (requests_sent (run w fs))
       = [Some (''bearer '' @ token)]"
  using API_KEY_resolved [OF assms]
  by (simp add: run_main [OF _ assms(1)] requests_sent_main the_request_def headers_def)

theorem authorization_header_witness:
  "''tok'' \<noteq> []
   \<and> environ (no_reply [''DEEPINFRA_API_KEY'' \<mapsto> ''tok'']) ''DEEPINFRA_API_KEY'' = Some ''tok''
   \<and> map (\<lambda>req. map_of (request_headers req) ''Authorization'')
        (requests_sent (run (no_reply [''DEEPINFRA_API_KEY'' \<mapsto> ''tok'']) Map.empty))
      = [Some ''bearer tok'']
   \<and> environ (no_reply [''DEEPINFRA_API_TOKEN'' \<mapsto> ''tok'']) ''DEEPINFRA_API_KEY'' = None
   \<and> environ (no_reply [''DEEPINFRA_API_TOKEN'' \<mapsto> ''tok'']) ''DEEPINFRA_API_TOKEN'' = Some ''tok''
   \<and> map (\<lambda>req. map_of (request_headers req) ''Authorization'')
        (requests_sent (run (no_reply [''DEEPINFRA_API_TOKEN'' \<mapsto> ''tok'']) Map.empty))
      = [Some ''bearer tok'']"
  using authorization_header_is_bearer_token
      [of "''tok''" "no_reply [''DEEPINFRA_API_KEY'' \<mapsto> ''tok'']" Map.empty]
    authorization_header_is_bearer_token
      [of "''tok''" "no_reply [''DEEPINFRA_API_TOKEN'' \<mapsto> ''tok'']" Map.empty]
  by (simp add: no_reply_def)

section \<open>The request and its failures\<close>

lemma receives_run:
  assumes "receives w data"
  obtains k resp where "k \<noteq> []" and "run w fs = main w k fs"
    and "requests_post w (the_request k) = Returns resp"
    and "\<not> (400 \<le> status_code resp \<and> status_code resp < 600)"
    and "json_loads w (text_of resp) = Some data"
  using assms
  by (auto simp: receives_def run_def split: option.splits post_result.splits)

lemma run_without_audio:
  assumes "receives w data"
    and "extract_base64_audio data = Inr None \<or> extract_base64_audio data = Inr (Some [])"
  shows "stdout (run w fs) = no_audio_report w data \<and> exit_status (run w fs) = Exited 1
       \<and> files (run w fs) = fs \<and> commands_run (run w fs) = []"
proof -
  from assms(1) obtain k resp where "run w fs = main w k fs"
    and "requests_post w (the_request k) = Returns resp"
    and "\<not> (400 \<le> status_code resp \<and> status_code resp < 600)"
    and "json_loads w (text_of resp) = Some data"
    by (rule receives_run)
  with assms(2) show ?thesis
    by (auto simp: main_def Let_def)
qed

lemma run_extraction_raises:
  assumes "receives w data" and "extract_base64_audio data = Inl x"
  shows "stdout (run w fs) = [] \<and> exit_status (run w fs) = Uncaught x \<and> files (run w fs) = fs"
proof -
  from assms(1) obtain k resp where "run w fs = main w k fs"
    and "requests_post w (the_request k) = Returns resp"
    and "\<not> (400 \<le> status_code resp \<and> status_code resp < 600)"
    and "json_loads w (text_of resp) = Some data"
    by (rule receives_run)
  with assms(2) show ?thesis
    by (auto simp: main_def Let_def)
qed

text \<open>
  A status from 400 to 599: the message of the error and the first 500 characters of
  the body are printed and the script exits with status 1, whatever the body is.
\<close>

lemma http_error_status_reported:
  assumes "API_KEY (environ w) = Some k" and "k \<noteq> []"
    and "requests_post w (the_request k) = Returns resp"
    and "400 \<le> status_code resp" and "status_code resp < 600"
  shows "stdout (run w fs) =
           py_print [''HTTP error: '' @ http_error_msg w resp @ [CHR 0x0A] @ ''Body: ''
                     @ take 500 (text_of resp)]
       \<and> exit_status (run w fs) = Exited 1 \<and> files (run w fs) = fs"
  using assms by (simp add: run_main main_def Let_def http_error_report_def)

text \<open>
  C1, at a request that times out. No response was received, so line 70 assigned
  nothing to \<^verbatim>\<open>resp\<close>; the handler on line 73 reads \<^verbatim>\<open>resp\<close> and raises
  \<^verbatim>\<open>UnboundLocalError\<close>, which nothing catches: the run prints nothing to standard
  output, neither the error nor a body, and ends with a traceback.
\<close>

theorem timeout_ends_in_unbound_local_error:
  "requests_post (no_reply [''DEEPINFRA_API_KEY'' \<mapsto> ''secret''])
      (the_request ''secret'') = Raises ''timed out''
   \<and> exit_status (run (no_reply [''DEEPINFRA_API_KEY'' \<mapsto> ''secret'']) Map.empty)
      = Uncaught UnboundLocalError
   \<and> stdout (run (no_reply [''DEEPINFRA_API_KEY'' \<mapsto> ''secret'']) Map.empty) = []"
  by (simp add: no_reply_def run_def API_KEY_def main_def Let_def http_error_report_def)

section \<open>Extraction\<close>

lemma dict_get_map_of: "dict_get d k = (case map_of d k of None \<Rightarrow> JNull | Some v \<Rightarrow> v)"
  by (simp add: dict_get_def)

lemma select_audio_field_truthy:
  "truthy (dict_get d ''audio'') \<Longrightarrow> select_audio_field d = dict_get d ''audio''"
  by (simp add: select_audio_field_def)

lemma select_audio_field_fallback:
  assumes "\<not> truthy (dict_get d ''audio'')"
    and "dict_get d ''output'' = JList (JDict e # rest)"
  shows "select_audio_field d = dict_get e ''audio''"
  using assms by (simp add: select_audio_field_def)

lemma select_audio_field_no_fallback:
  assumes "\<forall>e rest. dict_get d ''output'' \<noteq> JList (JDict e # rest)"
  shows "select_audio_field d = dict_get d ''audio''"
  using assms
  by (auto simp: select_audio_field_def Let_def split: json.splits list.splits)

lemma decode_audio_field_not_string:
  "(\<forall>s. v = JStr s \<longrightarrow> s = []) \<Longrightarrow> decode_audio_field v = None"
  by (cases v) (auto simp: decode_audio_field_def)

lemma no_shape_no_field:
  assumes "top_level_audio_string d = None \<or> top_level_audio_string d = Some []"
    and "output_audio_string d = None \<or> output_audio_string d = Some []"
  shows "decode_audio_field (select_audio_field d) = None"
proof (cases "truthy (dict_get d ''audio'')")
  case True
  with assms(1) have "\<forall>s. dict_get d ''audio'' = JStr s \<longrightarrow> s = []"
    by (auto simp: top_level_audio_string_def dict_get_def split: option.splits json.splits)
  with True show ?thesis
    by (simp add: select_audio_field_truthy decode_audio_field_not_string)
next
  case False
  show ?thesis
  proof (cases "\<exists>e rest. dict_get d ''output'' = JList (JDict e # rest)")
    case True
    then obtain e rest where out: "dict_get d ''output'' = JList (JDict e # rest)" by blast
    with assms(2) have "\<forall>s. dict_get e ''audio'' = JStr s \<longrightarrow> s = []"
      by (auto simp: output_audio_string_def dict_get_def split: option.splits json.splits)
    with False out show ?thesis
      by (simp add: select_audio_field_fallback decode_audio_field_not_string)
  next
    case no: False
    from False have "\<forall>s. dict_get d ''audio'' = JStr s \<longrightarrow> s = []" by auto
    with no show ?thesis
      by (simp add: select_audio_field_no_fallback decode_audio_field_not_string)
  qed
qed

text \<open>
  C2, for response objects. When the top-level \<^verbatim>\<open>audio\<close> is not a non-empty string and
  \<^verbatim>\<open>output[0].audio\<close> is not a non-empty string in a well-shaped \<^verbatim>\<open>output\<close>, extraction
  returns \<^verbatim>\<open>None\<close> and raises nothing; the script prints the heading and the first
  2000 characters of the pretty-printed response and exits with status 1, leaving the
  files as they were.
\<close>

theorem object_without_audio_is_reported:
  assumes "receives w (JDict d)"
    and "top_level_audio_string d = None \<or> top_level_audio_string d = Some []"
    and "output_audio_string d = None \<or> output_audio_string d = Some []"
  shows "extract_base64_audio (JDict d) = Inr None
       \<and> stdout (run w fs) =
           py_print [''No decodable audio in response. Full payload follows:'' @ [CHR 0x0A],
                     take 2000 (json_dumps w (JDict d))]
       \<and> length (take 2000 (json_dumps w (JDict d))) \<le> 2000
       \<and> exit_status (run w fs) = Exited 1 \<and> exit_code (exit_status (run w fs)) \<noteq> 0
       \<and> files (run w fs) = fs"
proof -
  have none: "extract_base64_audio (JDict d) = Inr None"
    using no_shape_no_field [OF assms(2,3)] by (simp add: extract_base64_audio_def)
  with run_without_audio [OF assms(1), of fs] show ?thesis
    by (simp add: no_audio_report_def)
qed

theorem object_without_audio_witness:
  "receives (reply 200 (Some (JDict [(''status'', JStr ''ok'')]))) (JDict [(''status'', JStr ''ok'')])
   \<and> top_level_audio_string [(''status'', JStr ''ok'')] = None
   \<and> output_audio_string [(''status'', JStr ''ok'')] = None
   \<and> extract_base64_audio (JDict [(''status'', JStr ''ok'')]) = Inr None
   \<and> stdout (run (reply 200 (Some (JDict [(''status'', JStr ''ok'')]))) Map.empty) =
        ''No decodable audio in response. Full payload follows:'' @ [CHR 0x0A] @ '' dump'' @ [CHR 0x0A]
   \<and> exit_status (run (reply 200 (Some (JDict [(''status'', JStr ''ok'')]))) Map.empty) = Exited 1"
  using object_without_audio_is_reported
    [of "reply 200 (Some (JDict [(''status'', JStr ''ok'')]))" "[(''status'', JStr ''ok'')]" Map.empty]
  by (simp add: reply_def receives_def API_KEY_def top_level_audio_string_def
      output_audio_string_def py_print_def)

text \<open>
  A response whose top level is not an object, here the empty list: line 43 raises
  \<^verbatim>\<open>AttributeError\<close>, extraction does not return, and the run ends with the uncaught
  exception without printing the dump.
\<close>

theorem non_object_response_counterexample:
  "receives (reply 200 (Some (JList []))) (JList [])
   \<and> extract_base64_audio (JList []) = Inl AttributeError
   \<and> exit_status (run (reply 200 (Some (JList []))) Map.empty) = Uncaught AttributeError
   \<and> stdout (run (reply 200 (Some (JList []))) Map.empty) = []"
  by (simp add: reply_def receives_def run_def API_KEY_def main_def Let_def
      extract_base64_audio_def)
text \<open>The padding of lines 59 to 61, case by case.\<close>

lemma fix_padding_cases:
  "fix_padding s =
     (if length s mod 4 = 0 then s
      else if length s mod 4 = 1 then s @ ''===''
      else if length s mod 4 = 2 then s @ ''==''
      else s @ ''='')"
proof -
  have "length s mod 4 = 0 \<or> length s mod 4 = 1 \<or> length s mod 4 = 2 \<or> length s mod 4 = 3"
    by arith
  moreover have "replicate 3 CHR ''='' = ''===''" and "replicate 2 CHR ''='' = ''==''"
    by (simp_all add: numeral_3_eq_3 numeral_2_eq_2)
  ultimately show ?thesis
    by (auto simp: fix_padding_def)
qed

lemma decode_audio_field_string:
  "s \<noteq> [] \<Longrightarrow>
   decode_audio_field (JStr s) =
     (case b64decode (fix_padding (strip_data_url s)) of Inl e \<Rightarrow> None | Inr bs \<Rightarrow> Some bs)"
  by (simp add: decode_audio_field_def)

lemma output_audio_stringD:
  assumes "output_audio_string d = Some s"
  obtains e rest where "dict_get d ''output'' = JList (JDict e # rest)"
    and "dict_get e ''audio'' = JStr s"
  using assms
  by (auto simp: output_audio_string_def dict_get_def split: option.splits json.splits list.splits)

text \<open>
  C5, for a top-level \<^verbatim>\<open>audio\<close> that is absent or falsy (\<^verbatim>\<open>null\<close>, \<^verbatim>\<open>false\<close>, zero, an
  empty string, list or object). Then the \<^verbatim>\<open>audio\<close> string of the first element of a
  well-shaped \<^verbatim>\<open>output\<close> is the selected field, and the result of extraction is the
  result of decoding that string. On \<^verbatim>\<open>{"output": [{"audio": "QUJD"}]}\<close> the result is
  the bytes \<^verbatim>\<open>ABC\<close>.
\<close>

theorem fallback_to_output_when_audio_falsy:
  assumes "\<not> truthy (dict_get d ''audio'')"
    and "output_audio_string d = Some s"
  shows "select_audio_field d = JStr s
       \<and> extract_base64_audio (JDict d) = Inr (decode_audio_field (JStr s))
       \<and> extract_base64_audio (JDict [(''output'', JList [JDict [(''audio'', JStr ''QUJD'')]])])
         = Inr (Some [65, 66, 67])"
proof -
  from assms(2) obtain e rest where "dict_get d ''output'' = JList (JDict e # rest)"
    and "dict_get e ''audio'' = JStr s"
    by (rule output_audio_stringD)
  with assms(1) have sel: "select_audio_field d = JStr s"
    by (simp add: select_audio_field_fallback)
  have "extract_base64_audio (JDict [(''output'', JList [JDict [(''audio'', JStr ''QUJD'')]])])
         = Inr (Some [65, 66, 67])"
    by (simp add: extract_base64_audio_def select_audio_field_def dict_get_def
        decode_audio_field_def strip_data_url_def fix_padding_cases b64decode_def a2b_base64_def
        table_a2b_base64_def)
  with sel show ?thesis
    by (simp add: extract_base64_audio_def)
qed

theorem fallback_to_output_witness:
  "\<not> truthy (dict_get [(''audio'', JStr ''''), (''output'', JList [JDict [(''audio'', JStr ''QUI'')]])] ''audio'')
   \<and> output_audio_string [(''audio'', JStr ''''), (''output'', JList [JDict [(''audio'', JStr ''QUI'')]])]
       = Some ''QUI''
   \<and> extract_base64_audio
        (JDict [(''audio'', JStr ''''), (''output'', JList [JDict [(''audio'', JStr ''QUI'')]])])
       = Inr (Some [65, 66])"
  using fallback_to_output_when_audio_falsy
    [of "[(''audio'', JStr ''''), (''output'', JList [JDict [(''audio'', JStr ''QUI'')]])]" "''QUI''"]
  by (simp add: dict_get_def output_audio_string_def decode_audio_field_def strip_data_url_def
      fix_padding_cases b64decode_def a2b_base64_def table_a2b_base64_def)

text \<open>
  A top-level \<^verbatim>\<open>audio\<close> that is a number other than zero does not yield a string, and
  \<^verbatim>\<open>output\<close> is well-shaped; yet line 46 does not fall back, and extraction returns
  \<^verbatim>\<open>None\<close> instead of decoding the string of \<^verbatim>\<open>output\<close>.
\<close>

theorem truthy_non_string_audio_counterexample:
  "top_level_audio_string [(''audio'', JInt 5), (''output'', JList [JDict [(''audio'', JStr ''QUJD'')]])]
     = None
   \<and> output_audio_string [(''audio'', JInt 5), (''output'', JList [JDict [(''audio'', JStr ''QUJD'')]])]
     = Some ''QUJD''
   \<and> decode_audio_field (JStr ''QUJD'') = Some [65, 66, 67]
   \<and> extract_base64_audio
        (JDict [(''audio'', JInt 5), (''output'', JList [JDict [(''audio'', JStr ''QUJD'')]])])
     = Inr None"
  by (simp add: top_level_audio_string_def output_audio_string_def extract_base64_audio_def
      select_audio_field_def dict_get_def decode_audio_field_def strip_data_url_def
      fix_padding_cases b64decode_def a2b_base64_def table_a2b_base64_def)

lemma strip_data_url_first_comma:
  assumes "CHR '','' \<notin> set pre"
  shows "strip_data_url (pre @ CHR '','' # rest) = rest"
proof -
  have "takeWhile (\<lambda>c. c \<noteq> CHR '','') (pre @ CHR '','' # rest) = pre"
    using assms by (induction pre) auto
  moreover have "dropWhile (\<lambda>c. c \<noteq> CHR '','') (pre @ CHR '','' # rest) = CHR '','' # rest"
    using assms by (induction pre) auto
  ultimately show ?thesis
    by (simp add: strip_data_url_def split_once_def)
qed

lemma strip_data_url_no_comma: "CHR '','' \<notin> set s \<Longrightarrow> strip_data_url s = s"
  by (simp add: strip_data_url_def)

text \<open>
  C7. When the selected audio string has a comma, with \<open>pre\<close> before its first comma
  and \<open>rest\<close> after it, what is padded and decoded is \<open>rest\<close>. On
  \<^verbatim>\<open>{"audio": "data:audio/wav;base64,QUJD"}\<close> extraction returns the bytes \<^verbatim>\<open>ABC\<close>.
\<close>

theorem data_url_prefix_is_discarded:
  assumes "select_audio_field d = JStr (pre @ CHR '','' # rest)"
    and "CHR '','' \<notin> set pre"
  shows "strip_data_url (pre @ CHR '','' # rest) = rest
       \<and> extract_base64_audio (JDict d) =
           (case b64decode (fix_padding rest) of Inl e \<Rightarrow> Inr None | Inr bs \<Rightarrow> Inr (Some bs))
       \<and> extract_base64_audio (JDict [(''audio'', JStr ''data:audio/wav;base64,QUJD'')])
         = Inr (Some [65, 66, 67])"
proof -
  have "extract_base64_audio (JDict [(''audio'', JStr ''data:audio/wav;base64,QUJD'')])
         = Inr (Some [65, 66, 67])"
    by (simp add: extract_base64_audio_def select_audio_field_def dict_get_def
        decode_audio_field_def strip_data_url_def split_once_def fix_padding_cases b64decode_def
        a2b_base64_def table_a2b_base64_def)
  then show ?thesis
    using assms
    by (simp add: strip_data_url_first_comma extract_base64_audio_def decode_audio_field_def
        split: sum.split)
qed

theorem data_url_prefix_witness:
  "select_audio_field [(''audio'', JStr ''a,b,QUI='')] = JStr (''a'' @ CHR '','' # ''b,QUI='')
   \<and> CHR '','' \<notin> set ''a''
   \<and> strip_data_url ''a,b,QUI='' = ''b,QUI=''
   \<and> extract_base64_audio (JDict [(''audio'', JStr ''a,b,QUI='')]) = Inr (Some [109, 5, 8])"
  using data_url_prefix_is_discarded [of "[(''audio'', JStr ''a,b,QUI='')]" "''a''" "''b,QUI=''"]
  by (simp add: select_audio_field_def dict_get_def fix_padding_cases b64decode_def
      a2b_base64_def table_a2b_base64_def)

lemma fix_padding_length: "length (fix_padding s) mod 4 = 0"
proof -
  have "length s mod 4 = 0 \<or> length s mod 4 = 1 \<or> length s mod 4 = 2 \<or> length s mod 4 = 3"
    by arith
  then show ?thesis
    by (auto simp: fix_padding_cases) presburger+
qed

lemma fix_padding_appends:
  "fix_padding s = s @ replicate ((4 - length s mod 4) mod 4) CHR ''=''"
proof -
  have "length s mod 4 = 0 \<or> length s mod 4 = 1 \<or> length s mod 4 = 2 \<or> length s mod 4 = 3"
    by arith
  then show ?thesis
    by (auto simp: fix_padding_def)
qed

text \<open>
  C4. For a selected audio field that is a string \<open>s\<close>: the padded string is \<open>s\<close>
  without its data-URL prefix, followed by as many \<^verbatim>\<open>=\<close> (fewer than four) as bring
  its length to a multiple of four, and it is what the decoder receives when \<open>s\<close> is
  not empty. When the decoder raises on it, extraction returns \<^verbatim>\<open>None\<close>, no exception
  leaves it, and a script that received this response prints the heading
  \<^verbatim>\<open>No decodable audio in response. Full payload follows:\<close> and the first 2000
  characters of the pretty-printed response, exits with status 1 and writes no file.
\<close>

theorem padding_then_clean_failure:
  assumes "select_audio_field d = JStr s"
  shows "fix_padding (strip_data_url s) =
           strip_data_url s @ replicate ((4 - length (strip_data_url s) mod 4) mod 4) CHR ''=''
       \<and> length (fix_padding (strip_data_url s)) mod 4 = 0
       \<and> (s \<noteq> [] \<longrightarrow>
            extract_base64_audio (JDict d) =
              (case b64decode (fix_padding (strip_data_url s)) of
                 Inl e \<Rightarrow> Inr None | Inr bs \<Rightarrow> Inr (Some bs)))
       \<and> (\<forall>e. b64decode (fix_padding (strip_data_url s)) = Inl e \<longrightarrow>
            extract_base64_audio (JDict d) = Inr None
            \<and> (\<forall>w fs. receives w (JDict d) \<longrightarrow>
                 stdout (run w fs) =
                   ''No decodable audio in response. Full payload follows:'' @ [CHR 0x0A]
                   @ '' '' @ take 2000 (json_dumps w (JDict d)) @ [CHR 0x0A]
                 \<and> exit_status (run w fs) = Exited 1
                 \<and> exit_code (exit_status (run w fs)) \<noteq> 0
                 \<and> files (run w fs) = fs
                 \<and> commands_run (run w fs) = []))"
proof -
  have ex: "extract_base64_audio (JDict d) =
      (case b64decode (fix_padding (strip_data_url s)) of
         Inl e \<Rightarrow> Inr None | Inr bs \<Rightarrow> Inr (Some bs))" if "s \<noteq> []"
    using assms that
    by (simp add: extract_base64_audio_def decode_audio_field_def split: sum.split)
  have "extract_base64_audio (JDict d) = Inr None
        \<and> (\<forall>w fs. receives w (JDict d) \<longrightarrow>
                 stdout (run w fs) =
                   ''No decodable audio in response. Full payload follows:'' @ [CHR 0x0A]
                   @ '' '' @ take 2000 (json_dumps w (JDict d)) @ [CHR 0x0A]
                 \<and> exit_status (run w fs) = Exited 1
                 \<and> exit_code (exit_status (run w fs)) \<noteq> 0
                 \<and> files (run w fs) = fs
                 \<and> commands_run (run w fs) = [])"
    if "b64decode (fix_padding (strip_data_url s)) = Inl e" for e
  proof -
    have none: "extract_base64_audio (JDict d) = Inr None"
    proof (cases "s = []")
      case True
      with assms show ?thesis
        by (simp add: extract_base64_audio_def decode_audio_field_def)
    next
      case False
      with that ex show ?thesis by simp
    qed
    have "stdout (run w fs) =
            ''No decodable audio in response. Full payload follows:'' @ [CHR 0x0A]
            @ '' '' @ take 2000 (json_dumps w (JDict d)) @ [CHR 0x0A]
          \<and> exit_status (run w fs) = Exited 1
          \<and> exit_code (exit_status (run w fs)) \<noteq> 0
          \<and> files (run w fs) = fs
          \<and> commands_run (run w fs) = []"
      if "receives w (JDict d)" for w fs
      using run_without_audio [OF that, of fs] none
      by (simp add: no_audio_report_def py_print_def)
    with none show ?thesis by blast
  qed
  with ex show ?thesis
    using fix_padding_appends [of "strip_data_url s"] fix_padding_length [of "strip_data_url s"]
    by blast
qed

theorem padding_then_clean_failure_witness:
  "select_audio_field [(''audio'', JStr ''data:audio/wav;base64,QUJDR'')]
     = JStr ''data:audio/wav;base64,QUJDR''
   \<and> ''data:audio/wav;base64,QUJDR'' \<noteq> []
   \<and> fix_padding (strip_data_url ''data:audio/wav;base64,QUJDR'') = ''QUJDR===''
   \<and> b64decode ''QUJDR==='' = Inl BinasciiError
   \<and> extract_base64_audio (JDict [(''audio'', JStr ''data:audio/wav;base64,QUJDR'')]) = Inr None
   \<and> receives (reply 200 (Some (JDict [(''audio'', JStr ''data:audio/wav;base64,QUJDR'')])))
        (JDict [(''audio'', JStr ''data:audio/wav;base64,QUJDR'')])
   \<and> stdout (run (reply 200 (Some (JDict [(''audio'', JStr ''data:audio/wav;base64,QUJDR'')])))
        [OUTFILE \<mapsto> [1]])
      = ''No decodable audio in response. Full payload follows:'' @ [CHR 0x0A] @ '' dump''
        @ [CHR 0x0A]
   \<and> exit_status (run (reply 200 (Some (JDict [(''audio'', JStr ''data:audio/wav;base64,QUJDR'')])))
        [OUTFILE \<mapsto> [1]]) = Exited 1
   \<and> files (run (reply 200 (Some (JDict [(''audio'', JStr ''data:audio/wav;base64,QUJDR'')])))
        [OUTFILE \<mapsto> [1]]) = [OUTFILE \<mapsto> [1]]"
proof -
  have sel: "select_audio_field [(''audio'', JStr ''data:audio/wav;base64,QUJDR'')]
     = JStr ''data:audio/wav;base64,QUJDR''"
    by (simp add: select_audio_field_def dict_get_def)
  have pad: "fix_padding (strip_data_url ''data:audio/wav;base64,QUJDR'') = ''QUJDR===''"
    by (simp add: strip_data_url_def split_once_def fix_padding_cases)
  have dec: "b64decode ''QUJDR==='' = Inl BinasciiError"
    by (simp add: b64decode_def a2b_base64_def table_a2b_base64_def)
  have rec: "receives (reply 200 (Some (JDict [(''audio'', JStr ''data:audio/wav;base64,QUJDR'')])))
        (JDict [(''audio'', JStr ''data:audio/wav;base64,QUJDR'')])"
    by (simp add: receives_def reply_def API_KEY_def)
  have dump: "json_dumps (reply 200 (Some (JDict [(''audio'', JStr ''data:audio/wav;base64,QUJDR'')])))
      (JDict [(''audio'', JStr ''data:audio/wav;base64,QUJDR'')]) = ''dump''"
    by (simp add: reply_def)
  show ?thesis
    using padding_then_clean_failure [OF sel] sel pad dec rec dump by simp
qed

section \<open>Persistence\<close>

text \<open>
  C10. When extraction returns the empty bytes, a script that received the response
  does what it does when extraction returns \<^verbatim>\<open>None\<close>: it prints the diagnostic dump,
  exits with status 1 and leaves the files as they were. On
  \<^verbatim>\<open>{"audio": "data:audio/wav;base64,"}\<close> extraction returns the empty bytes.
\<close>

theorem empty_audio_is_treated_as_missing:
  assumes "receives w data"
    and "extract_base64_audio data = Inr (Some [])"
  shows "stdout (run w fs) = no_audio_report w data
       \<and> exit_status (run w fs) = Exited 1 \<and> exit_code (exit_status (run w fs)) \<noteq> 0
       \<and> files (run w fs) = fs \<and> commands_run (run w fs) = []
       \<and> extract_base64_audio (JDict [(''audio'', JStr ''data:audio/wav;base64,'')])
         = Inr (Some [])"
proof -
  have "extract_base64_audio (JDict [(''audio'', JStr ''data:audio/wav;base64,'')])
         = Inr (Some [])"
    by (simp add: extract_base64_audio_def select_audio_field_def dict_get_def
        decode_audio_field_def strip_data_url_def split_once_def fix_padding_cases b64decode_def
        a2b_base64_def)
  with run_without_audio [OF assms(1), of fs] assms(2) show ?thesis
    by simp
qed

theorem empty_audio_witness:
  "receives (reply 200 (Some (JDict [(''audio'', JStr ''data:audio/wav;base64,'')])))
     (JDict [(''audio'', JStr ''data:audio/wav;base64,'')])
   \<and> extract_base64_audio (JDict [(''audio'', JStr ''data:audio/wav;base64,'')]) = Inr (Some [])
   \<and> stdout (run (reply 200 (Some (JDict [(''audio'', JStr ''data:audio/wav;base64,'')])))
        [OUTFILE \<mapsto> [1]])
      = ''No decodable audio in response. Full payload follows:'' @ [CHR 0x0A] @ '' dump''
        @ [CHR 0x0A]
   \<and> exit_status (run (reply 200 (Some (JDict [(''audio'', JStr ''data:audio/wav;base64,'')])))
        [OUTFILE \<mapsto> [1]]) = Exited 1
   \<and> files (run (reply 200 (Some (JDict [(''audio'', JStr ''data:audio/wav;base64,'')])))
        [OUTFILE \<mapsto> [1]]) = [OUTFILE \<mapsto> [1]]"
proof -
  have rec: "receives (reply 200 (Some (JDict [(''audio'', JStr ''data:audio/wav;base64,'')])))
     (JDict [(''audio'', JStr ''data:audio/wav;base64,'')])"
    by (simp add: receives_def reply_def API_KEY_def)
  have ex: "extract_base64_audio (JDict [(''audio'', JStr ''data:audio/wav;base64,'')])
      = Inr (Some [])"
    by (simp add: extract_base64_audio_def select_audio_field_def dict_get_def
        decode_audio_field_def strip_data_url_def split_once_def fix_padding_cases b64decode_def
        a2b_base64_def)
  have "json_dumps (reply 200 (Some (JDict [(''audio'', JStr ''data:audio/wav;base64,'')])))
      (JDict [(''audio'', JStr ''data:audio/wav;base64,'')]) = ''dump''"
    by (simp add: reply_def)
  then show ?thesis
    using empty_audio_is_treated_as_missing [OF rec ex, of "[OUTFILE \<mapsto> [1]]"] rec ex
    by (simp add: no_audio_report_def py_print_def)
qed

lemma files_main: "exit_code (exit_status (main w k fs)) \<noteq> 0 \<Longrightarrow> files (main w k fs) = fs"
  by (auto simp: main_def Let_def split: post_result.splits sum.splits option.splits if_splits)

lemma files_main_twice: "files (main w k (files (main w k fs))) = files (main w k fs)"
  by (auto simp: main_def Let_def split: post_result.splits sum.splits option.splits)

text \<open>
  C6, as the script behaves. A run that ends with a status other than zero (no
  credential, failed request, error status, body that is not JSON, no audio, or an
  uncaught exception) leaves every file as it was before the run: it creates no file,
  and it removes none, so a file written by an earlier run stays. Running the script
  again in the same surroundings leaves the files as the first run left them.
\<close>

theorem failing_run_leaves_files_untouched:
  "(exit_code (exit_status (run w fs)) \<noteq> 0 \<longrightarrow> files (run w fs) = fs)
   \<and> files (run w (files (run w fs))) = files (run w fs)"
  by (auto simp: run_def files_main files_main_twice split: option.splits)

theorem failing_run_witness:
  "exit_code (exit_status (run (reply 503 None) [OUTFILE \<mapsto> [1]])) \<noteq> 0
   \<and> files (run (reply 503 None) [OUTFILE \<mapsto> [1]]) = [OUTFILE \<mapsto> [1]]"
proof -
  have "exit_code (exit_status (run (reply 503 None) [OUTFILE \<mapsto> [1]])) \<noteq> 0"
    by (simp add: run_def reply_def API_KEY_def main_def Let_def http_error_report_def)
  with failing_run_leaves_files_untouched [of "reply 503 None" "[OUTFILE \<mapsto> [1]]"]
  show ?thesis by simp
qed

text \<open>
  Two runs: the first receives \<^verbatim>\<open>{"audio": "QUJD"}\<close> and writes the output file; the
  second is answered with status 503 and fails. The file of the first run is still
  there after the second, with the bytes of the first.
\<close>

theorem stale_file_retained_counterexample:
  "exit_status (run (reply 200 (Some (JDict [(''audio'', JStr ''QUJD'')]))) Map.empty) = Exited 0
   \<and> files (run (reply 200 (Some (JDict [(''audio'', JStr ''QUJD'')]))) Map.empty) OUTFILE
      = Some [65, 66, 67]
   \<and> exit_status (run (reply 503 None)
        (files (run (reply 200 (Some (JDict [(''audio'', JStr ''QUJD'')]))) Map.empty)))
      = Exited 1
   \<and> files (run (reply 503 None)
        (files (run (reply 200 (Some (JDict [(''audio'', JStr ''QUJD'')]))) Map.empty))) OUTFILE
      = Some [65, 66, 67]"
  by (simp add: run_def reply_def API_KEY_def main_def Let_def http_error_report_def
      extract_base64_audio_def select_audio_field_def dict_get_def decode_audio_field_def
      strip_data_url_def fix_padding_cases b64decode_def a2b_base64_def table_a2b_base64_def)

section \<open>The round trip through base64\<close>

text \<open>The character codes of the alphabet, and the alphabet as the inverse of the decoding table.\<close>

lemma table_b2a_base64_codes:
  "map of_char table_b2a_base64 = ([65..<91] @ [97..<123] @ [48..<58] @ [43, 47] :: nat list)"
  by (simp add: table_b2a_base64_def)

lemma length_table_b2a_base64: "length table_b2a_base64 = 64"
  by (simp add: table_b2a_base64_def)

lemma of_char_table_b2a_base64:
  assumes "n < 64"
  shows "(of_char (table_b2a_base64 ! n) :: nat) =
           (if n < 26 then n + 65 else if n < 52 then n + 71 else if n < 62 then n - 4
            else if n = 62 then 43 else 47)"
proof -
  have "(of_char (table_b2a_base64 ! n) :: nat) = map of_char table_b2a_base64 ! n"
    using assms by (simp add: length_table_b2a_base64)
  also have "\<dots> = ([65..<91] @ [97..<123] @ [48..<58] @ [43, 47] :: nat list) ! n"
    by (simp only: table_b2a_base64_codes)
  also have "\<dots> = (if n < 26 then n + 65 else if n < 52 then n + 71 else if n < 62 then n - 4
            else if n = 62 then 43 else 47)"
  proof -
    consider "n < 26" | "26 \<le> n" "n < 52" | "52 \<le> n" "n < 62" | "n = 62" | "n = 63"
      using assms by linarith
    then show ?thesis
    proof cases
      case 1
      then show ?thesis by (auto simp: nth_append simp del: upt_rec_numeral)
    next
      case 2
      then show ?thesis by (auto simp: nth_append simp del: upt_rec_numeral)
    next
      case 3
      then show ?thesis by (auto simp: nth_append simp del: upt_rec_numeral)
    next
      case 4
      then show ?thesis by (auto simp: nth_append simp del: upt_rec_numeral)
    next
      case 5
      then show ?thesis by (auto simp: nth_append simp del: upt_rec_numeral)
    qed
  qed
  finally show ?thesis .
qed


lemma masks: "(3::8 word) = mask 2" "(15::8 word) = mask 4" "(63::8 word) = mask 6"
  by (simp_all add: mask_eq_exp_minus_1)

lemma word_lt_64I:
  assumes "\<And>n. bit (w::8 word) n \<Longrightarrow> n < 6"
  shows "w < 64"
proof -
  have "w AND mask 6 = w"
    by (rule bit_word_eqI) (auto simp: bit_simps dest: assms)
  moreover have "w AND mask 6 < 2 ^ 6"
    by (rule and_mask_less_size) (simp add: word_size)
  ultimately show ?thesis by simp
qed

lemma sextet1: "drop_bit 2 (a::8 word) < 64"
  by (rule word_lt_64I) (auto simp: bit_simps dest: bit_imp_le_length)

lemma sextet2_last: "push_bit 4 ((a::8 word) AND 3) < 64"
  by (rule word_lt_64I) (auto simp: masks bit_simps dest: bit_imp_le_length)

lemma sextet2: "push_bit 4 ((a::8 word) AND 3) OR drop_bit 4 (b::8 word) < 64"
  by (rule word_lt_64I) (auto simp: masks bit_simps dest: bit_imp_le_length)

lemma sextet3_last: "push_bit 2 ((b::8 word) AND 15) < 64"
  by (rule word_lt_64I) (auto simp: masks bit_simps dest: bit_imp_le_length)

lemma sextet3: "push_bit 2 ((b::8 word) AND 15) OR drop_bit 6 (c::8 word) < 64"
  by (rule word_lt_64I) (auto simp: masks bit_simps dest: bit_imp_le_length)

lemma sextet4: "(c::8 word) AND 63 < 64"
  by (rule word_lt_64I) (auto simp: masks bit_simps dest: bit_imp_le_length)

lemma regroup1:
  "push_bit 2 (drop_bit 2 a) OR drop_bit 4 (push_bit 4 (a AND 3) OR drop_bit 4 b) = (a::8 word)"
proof (rule bit_word_eqI)
  fix n
  assume "n < LENGTH(8)"
  then consider "n < 2" | "2 \<le> n" "n < 4" | "4 \<le> n" "n < 6" | "6 \<le> n" "n < 8"
    by fastforce
  then show "bit (push_bit 2 (drop_bit 2 a) OR drop_bit 4 (push_bit 4 (a AND 3) OR drop_bit 4 b)) n = bit a n"
    by cases (auto simp: masks bit_simps simp del: add_2_eq_Suc add_2_eq_Suc')
qed

lemma regroup2:
  "push_bit 4 ((push_bit 4 (a AND 3) OR drop_bit 4 b) AND 0x0f) OR drop_bit 2 (push_bit 2 (b AND 15) OR drop_bit 6 c) = (b::8 word)"
proof (rule bit_word_eqI)
  fix n
  assume "n < LENGTH(8)"
  then consider "n < 2" | "2 \<le> n" "n < 4" | "4 \<le> n" "n < 6" | "6 \<le> n" "n < 8"
    by fastforce
  then show "bit (push_bit 4 ((push_bit 4 (a AND 3) OR drop_bit 4 b) AND 0x0f) OR drop_bit 2 (push_bit 2 (b AND 15) OR drop_bit 6 c)) n = bit b n"
    by cases (auto simp: masks bit_simps simp del: add_2_eq_Suc add_2_eq_Suc')
qed

lemma regroup3:
  "push_bit 6 ((push_bit 2 (b AND 15) OR drop_bit 6 c) AND 0x03) OR (c AND 63) = (c::8 word)"
proof (rule bit_word_eqI)
  fix n
  assume "n < LENGTH(8)"
  then consider "n < 2" | "2 \<le> n" "n < 4" | "4 \<le> n" "n < 6" | "6 \<le> n" "n < 8"
    by fastforce
  then show "bit (push_bit 6 ((push_bit 2 (b AND 15) OR drop_bit 6 c) AND 0x03) OR (c AND 63)) n = bit c n"
    by cases (auto simp: masks bit_simps simp del: add_2_eq_Suc add_2_eq_Suc')
qed

lemma regroup1_last:
  "push_bit 2 (drop_bit 2 a) OR drop_bit 4 (push_bit 4 (a AND 3)) = (a::8 word)"
proof (rule bit_word_eqI)
  fix n
  assume "n < LENGTH(8)"
  then consider "n < 2" | "2 \<le> n" "n < 4" | "4 \<le> n" "n < 6" | "6 \<le> n" "n < 8"
    by fastforce
  then show "bit (push_bit 2 (drop_bit 2 a) OR drop_bit 4 (push_bit 4 (a AND 3))) n = bit a n"
    by cases (auto simp: masks bit_simps simp del: add_2_eq_Suc add_2_eq_Suc')
qed

lemma regroup2_last:
  "push_bit 4 ((push_bit 4 (a AND 3) OR drop_bit 4 b) AND 0x0f) OR drop_bit 2 (push_bit 2 (b AND 15)) = (b::8 word)"
proof (rule bit_word_eqI)
  fix n
  assume "n < LENGTH(8)"
  then consider "n < 2" | "2 \<le> n" "n < 4" | "4 \<le> n" "n < 6" | "6 \<le> n" "n < 8"
    by fastforce
  then show "bit (push_bit 4 ((push_bit 4 (a AND 3) OR drop_bit 4 b) AND 0x0f) OR drop_bit 2 (push_bit 2 (b AND 15))) n = bit b n"
    by cases (auto simp: masks bit_simps simp del: add_2_eq_Suc add_2_eq_Suc')
qed


lemma b2a_code:
  assumes "v < 64"
  shows "(of_char (b2a v) :: nat) =
           (if unat v < 26 then unat v + 65 else if unat v < 52 then unat v + 71
            else if unat v < 62 then unat v - 4 else if unat v = 62 then 43 else 47)"
proof -
  from assms have "unat v < 64"
    by (simp add: word_less_nat_alt)
  then show ?thesis
    unfolding b2a_def by (rule of_char_table_b2a_base64)
qed

lemma b2a_inverse:
  assumes "v < 64"
  shows "table_a2b_base64 (b2a v) = v"
proof -
  from assms have lt: "unat v < 64"
    by (simp add: word_less_nat_alt)
  have v: "of_nat (unat v) = v" by simp
  consider "unat v < 26" | "26 \<le> unat v" "unat v < 52" | "52 \<le> unat v" "unat v < 62"
    | "unat v = 62" | "unat v = 63"
    using lt by linarith
  then show ?thesis
  proof cases
    case 1
    then show ?thesis by (simp add: table_a2b_base64_def b2a_code [OF assms])
  next
    case 2
    then show ?thesis by (simp add: table_a2b_base64_def b2a_code [OF assms])
  next
    case 3
    then have "unat v - 4 + 4 = unat v" by simp
    with 3 show ?thesis by (auto simp: table_a2b_base64_def Let_def b2a_code [OF assms])
  next
    case 4
    then have code: "(of_char (b2a v) :: nat) = 43"
      by (simp add: b2a_code [OF assms])
    from 4 have "v = 62" using v by (metis of_nat_numeral)
    then show ?thesis
      unfolding table_a2b_base64_def Let_def code by simp
  next
    case 5
    then have code: "(of_char (b2a v) :: nat) = 47"
      by (simp add: b2a_code [OF assms])
    from 5 have "v = 63" using v by (metis of_nat_numeral)
    then show ?thesis
      unfolding table_a2b_base64_def Let_def code by simp
  qed
qed

lemma b2a_ascii:
  assumes "v < 64"
  shows "(of_char (b2a v) :: nat) < 128"
proof -
  from assms have "unat v < 64"
    by (simp add: word_less_nat_alt)
  then show ?thesis
    by (auto simp: b2a_code [OF assms])
qed

lemma b2a_not_pad: "v < 64 \<Longrightarrow> b2a v \<noteq> CHR ''=''"
proof
  assume "v < 64" and "b2a v = CHR ''=''"
  then have "(of_char (b2a v) :: nat) = 61" by simp
  with \<open>v < 64\<close> show False
    by (simp add: b2a_code split: if_splits)
qed

lemma b2a_not_comma: "v < 64 \<Longrightarrow> b2a v \<noteq> CHR '',''"
proof
  assume "v < 64" and "b2a v = CHR '',''"
  then have "(of_char (b2a v) :: nat) = 44" by simp
  with \<open>v < 64\<close> show False
    by (simp add: b2a_code split: if_splits)
qed


lemma a2b_loop_sextet:
  assumes "v < 64"
  shows "a2b_loop quad_pos leftchar pads out (b2a v # cs) =
     (if quad_pos = 0 then a2b_loop 1 v 0 out cs
      else if quad_pos = 1 then
        a2b_loop 2 (v AND 0x0f) 0 (out @ [push_bit 2 leftchar OR drop_bit 4 v]) cs
      else if quad_pos = 2 then
        a2b_loop 3 (v AND 0x03) 0 (out @ [push_bit 4 leftchar OR drop_bit 2 v]) cs
      else a2b_loop 0 0 0 (out @ [push_bit 6 leftchar OR v]) cs)"
proof -
  from assms have "\<not> 64 \<le> v" by simp
  then show ?thesis
    by (simp add: b2a_not_pad [OF assms] b2a_inverse [OF assms] Let_def)
qed

lemma a2b_loop_two:
  assumes "v < 64" and "v' < 64"
  shows "a2b_loop 0 leftchar pads out (b2a v # b2a v' # cs) =
           a2b_loop 2 (v' AND 0x0f) 0 (out @ [push_bit 2 v OR drop_bit 4 v']) cs"
  by (simp add: a2b_loop_sextet [OF assms(1)] a2b_loop_sextet [OF assms(2)] del: a2b_loop.simps)

lemma a2b_loop_third:
  assumes "v < 64"
  shows "a2b_loop 2 leftchar pads out (b2a v # cs) =
           a2b_loop 3 (v AND 0x03) 0 (out @ [push_bit 4 leftchar OR drop_bit 2 v]) cs"
  by (simp add: a2b_loop_sextet [OF assms] del: a2b_loop.simps)

lemma a2b_loop_fourth:
  assumes "v < 64"
  shows "a2b_loop 3 leftchar pads out (b2a v # cs) =
           a2b_loop 0 0 0 (out @ [push_bit 6 leftchar OR v]) cs"
  by (simp add: a2b_loop_sextet [OF assms] del: a2b_loop.simps)

lemma a2b_loop_one_byte:
  "a2b_loop 0 0 0 out (b64encode [a]) = Inr (out @ [a])"
proof -
  have "a2b_loop 0 0 0 out (b64encode [a]) =
      a2b_loop 2 (push_bit 4 (a AND 3) AND 0x0f) 0
        (out @ [push_bit 2 (drop_bit 2 a) OR drop_bit 4 (push_bit 4 (a AND 3))]) ''==''"
    unfolding b64encode.simps by (rule a2b_loop_two [OF sextet1 sextet2_last])
  also have "\<dots> = a2b_loop 2 (push_bit 4 (a AND 3) AND 0x0f) 0 (out @ [a]) ''==''"
    by (simp only: regroup1_last)
  also have "\<dots> = Inr (out @ [a])"
    by simp
  finally show ?thesis .
qed

lemma a2b_loop_two_bytes:
  "a2b_loop 0 0 0 out (b64encode [a, b]) = Inr (out @ [a, b])"
proof -
  have "a2b_loop 0 0 0 out (b64encode [a, b]) =
      a2b_loop 2 ((push_bit 4 (a AND 3) OR drop_bit 4 b) AND 0x0f) 0
        (out @ [push_bit 2 (drop_bit 2 a) OR drop_bit 4 (push_bit 4 (a AND 3) OR drop_bit 4 b)])
        [b2a (push_bit 2 (b AND 15)), CHR ''='']"
    unfolding b64encode.simps by (rule a2b_loop_two [OF sextet1 sextet2])
  also have "\<dots> =
      a2b_loop 3 (push_bit 2 (b AND 15) AND 0x03) 0
        ((out @ [a]) @ [push_bit 4 ((push_bit 4 (a AND 3) OR drop_bit 4 b) AND 0x0f)
                        OR drop_bit 2 (push_bit 2 (b AND 15))])
        ''=''"
    by (simp only: regroup1 a2b_loop_third [OF sextet3_last])
  also have "\<dots> = a2b_loop 3 (push_bit 2 (b AND 15) AND 0x03) 0 ((out @ [a]) @ [b]) ''=''"
    by (simp only: regroup2_last)
  also have "\<dots> = Inr (out @ [a, b])"
    by simp
  finally show ?thesis .
qed

lemma a2b_loop_three_bytes:
  "a2b_loop 0 0 0 out (b64encode (a # b # c # rest)) =
     a2b_loop 0 0 0 (out @ [a, b, c]) (b64encode rest)"
proof -
  have "a2b_loop 0 0 0 out (b64encode (a # b # c # rest)) =
      a2b_loop 2 ((push_bit 4 (a AND 3) OR drop_bit 4 b) AND 0x0f) 0
        (out @ [push_bit 2 (drop_bit 2 a) OR drop_bit 4 (push_bit 4 (a AND 3) OR drop_bit 4 b)])
        (b2a (push_bit 2 (b AND 15) OR drop_bit 6 c) # b2a (c AND 63) # b64encode rest)"
    unfolding b64encode.simps append_Cons append_Nil
    by (rule a2b_loop_two [OF sextet1 sextet2])
  also have "\<dots> =
      a2b_loop 3 ((push_bit 2 (b AND 15) OR drop_bit 6 c) AND 0x03) 0
        ((out @ [a]) @ [push_bit 4 ((push_bit 4 (a AND 3) OR drop_bit 4 b) AND 0x0f)
                        OR drop_bit 2 (push_bit 2 (b AND 15) OR drop_bit 6 c)])
        (b2a (c AND 63) # b64encode rest)"
    by (simp only: regroup1 a2b_loop_third [OF sextet3])
  also have "\<dots> =
      a2b_loop 0 0 0
        (((out @ [a]) @ [b]) @ [push_bit 6 ((push_bit 2 (b AND 15) OR drop_bit 6 c) AND 0x03)
                                OR (c AND 63)])
        (b64encode rest)"
    by (simp only: regroup2 a2b_loop_fourth [OF sextet4])
  also have "\<dots> = a2b_loop 0 0 0 (out @ [a, b, c]) (b64encode rest)"
    by (simp only: regroup3) simp
  finally show ?thesis .
qed

lemma a2b_loop_b64encode: "a2b_loop 0 0 0 out (b64encode bs) = Inr (out @ bs)"
proof (induction bs arbitrary: out rule: b64encode.induct)
  case 1
  show ?case by simp
next
  case (2 a)
  show ?case by (rule a2b_loop_one_byte)
next
  case (3 a b)
  show ?case by (rule a2b_loop_two_bytes)
next
  case (4 a b c rest)
  show ?case
    by (simp only: a2b_loop_three_bytes "4.IH") simp
qed

lemma b64encode_chars:
  "c \<in> set (b64encode bs) \<Longrightarrow> c = CHR ''='' \<or> (\<exists>v. v < 64 \<and> c = b2a v)"
proof (induction bs rule: b64encode.induct)
  case 1
  then show ?case by simp
next
  case (2 a)
  then have "c = b2a (drop_bit 2 a) \<or> c = b2a (push_bit 4 (a AND 3)) \<or> c = CHR ''=''"
    by (simp only: b64encode.simps list.set insert_iff empty_iff) blast
  with sextet1 sextet2_last show ?case by blast
next
  case (3 a b)
  then have "c = b2a (drop_bit 2 a) \<or> c = b2a (push_bit 4 (a AND 3) OR drop_bit 4 b)
      \<or> c = b2a (push_bit 2 (b AND 15)) \<or> c = CHR ''=''"
    by (simp only: b64encode.simps list.set insert_iff empty_iff) blast
  with sextet1 sextet2 sextet3_last show ?case by blast
next
  case (4 a b c' rest)
  from "4.prems" have "c = b2a (drop_bit 2 a) \<or> c = b2a (push_bit 4 (a AND 3) OR drop_bit 4 b)
      \<or> c = b2a (push_bit 2 (b AND 15) OR drop_bit 6 c') \<or> c = b2a (c' AND 63)
      \<or> c \<in> set (b64encode rest)"
    by (simp only: b64encode.simps set_append list.set insert_iff empty_iff Un_iff) blast
  with sextet1 sextet2 sextet3 sextet4 "4.IH" show ?case by blast
qed

lemma b64encode_ascii:
  assumes "c \<in> set (b64encode bs)"
  shows "(of_char c :: nat) < 128"
  using b64encode_chars [OF assms] by (auto simp: b2a_ascii)

lemma b64encode_no_comma: "CHR '','' \<notin> set (b64encode bs)"
proof
  assume "CHR '','' \<in> set (b64encode bs)"
  from b64encode_chars [OF this] obtain v where "v < 64" and "CHR '','' = b2a v"
    by auto
  then show False
    using b2a_not_comma [of v] by simp
qed

lemma length_b64encode: "length (b64encode bs) mod 4 = 0"
  by (induction bs rule: b64encode.induct) auto

lemma b64decode_b64encode: "b64decode (b64encode bs) = Inr bs"
proof -
  have "\<not> (\<exists>c \<in> set (b64encode bs). (of_char c :: nat) \<ge> 128)"
    using b64encode_ascii [of _ bs] by (auto simp: not_le)
  then show ?thesis
    by (simp add: b64decode_def a2b_base64_def a2b_loop_b64encode)
qed

text \<open>The character three places before the end of an encoding is never a pad.\<close>

lemma b64encode_length_ge: "bs \<noteq> [] \<Longrightarrow> 4 \<le> length (b64encode bs)"
  by (induction bs rule: b64encode.induct) auto

lemma nth_from_end_append:
  assumes "3 \<le> length ys"
  shows "(xs @ ys) ! (length (xs @ ys) - 3) = ys ! (length ys - 3)"
proof -
  have "length (xs @ ys) - 3 = length xs + (length ys - 3)"
    using assms by simp
  then show ?thesis
    by (simp only: nth_append_length_plus)
qed

lemma b64encode_third_last:
  "bs \<noteq> [] \<Longrightarrow> b64encode bs ! (length (b64encode bs) - 3) \<noteq> CHR ''=''"
proof (induction bs rule: b64encode.induct)
  case 1
  then show ?case by simp
next
  case (2 a)
  have "b64encode [a] ! (length (b64encode [a]) - 3) = b2a (push_bit 4 (a AND 3))"
    by (simp only: b64encode.simps list.size) simp
  then show ?case
    by (simp only: b2a_not_pad [OF sextet2_last]) simp
next
  case (3 a b)
  have "b64encode [a, b] ! (length (b64encode [a, b]) - 3)
      = b2a (push_bit 4 (a AND 3) OR drop_bit 4 b)"
    by (simp only: b64encode.simps list.size) simp
  then show ?case
    by (simp only: b2a_not_pad [OF sextet2]) simp
next
  case (4 a b c rest)
  show ?case
  proof (cases "rest = []")
    case True
    have "b64encode [a, b, c] ! (length (b64encode [a, b, c]) - 3)
      = b2a (push_bit 4 (a AND 3) OR drop_bit 4 b)"
      by (simp only: b64encode.simps list.size append_Nil2) simp
    with True show ?thesis
      by (simp only: b2a_not_pad [OF sextet2]) simp
  next
    case False
    then have "4 \<le> length (b64encode rest)"
      by (rule b64encode_length_ge)
    then have len: "3 \<le> length (b64encode rest)"
      by simp
    have "b64encode (a # b # c # rest) ! (length (b64encode (a # b # c # rest)) - 3)
        = b64encode rest ! (length (b64encode rest) - 3)"
      by (simp only: b64encode.simps nth_from_end_append [OF len])
    with "4.IH" [OF False] show ?thesis by simp
  qed
qed

lemma b64encode_pads_at_most_two:
  assumes "s @ replicate k CHR ''='' = b64encode bs" and "bs \<noteq> []"
  shows "k \<le> 2"
proof (rule ccontr)
  assume "\<not> k \<le> 2"
  then have k: "3 \<le> k" by simp
  then have len: "3 \<le> length (replicate k CHR ''='')"
    by simp
  have "b64encode bs ! (length (b64encode bs) - 3)
      = replicate k CHR ''='' ! (length (replicate k CHR ''='') - 3)"
    by (simp only: assms(1) [symmetric] nth_from_end_append [OF len])
  also have "\<dots> = CHR ''=''"
    using k by simp
  finally show False
    using b64encode_third_last [OF assms(2)] by simp
qed

lemma mod_one_short: "((n::nat) + 1) mod 4 = 0 \<Longrightarrow> n mod 4 = 3"
  by arith

lemma mod_two_short: "((n::nat) + 2) mod 4 = 0 \<Longrightarrow> n mod 4 = 2"
  by arith

lemma fix_padding_restores:
  assumes "s @ replicate k CHR ''='' = b64encode bs" and "bs \<noteq> []"
  shows "fix_padding (strip_data_url s) = b64encode bs" and "s \<noteq> []"
proof -
  have k: "k \<le> 2" using assms by (rule b64encode_pads_at_most_two)
  have len: "length s + k = length (b64encode bs)"
    using assms(1) [symmetric] by simp
  have "4 \<le> length (b64encode bs)"
    using assms(2) by (rule b64encode_length_ge)
  with len k have "2 \<le> length s" by linarith
  then show "s \<noteq> []" by auto
  have "set s \<subseteq> set (b64encode bs)"
    using assms(1) [symmetric] by simp
  then have "CHR '','' \<notin> set s"
    using b64encode_no_comma [of bs] by blast
  then have strip: "strip_data_url s = s"
    by (rule strip_data_url_no_comma)
  have mod: "(length s + k) mod 4 = 0"
    using len length_b64encode [of bs] by simp
  from k consider "k = 0" | "k = 1" | "k = 2"
    by linarith
  then have "fix_padding s = s @ replicate k CHR ''=''"
  proof cases
    case 1
    with mod have "length s mod 4 = 0" by simp
    with 1 show ?thesis by (simp add: fix_padding_cases)
  next
    case 2
    with mod have "length s mod 4 = 3" by (simp add: mod_one_short)
    with 2 show ?thesis by (simp add: fix_padding_cases)
  next
    case 3
    with mod have "length s mod 4 = 2" by (simp add: mod_two_short)
    moreover have "replicate 2 CHR ''='' = ''==''"
      by (simp add: numeral_2_eq_2)
    ultimately show ?thesis using 3 by (simp add: fix_padding_cases)
  qed
  with strip show "fix_padding (strip_data_url s) = b64encode bs"
    by (simp only: assms(1))
qed

text \<open>
  C9. Let \<open>s\<close> be the standard base64 encoding of \<open>b\<close>, or that encoding without some
  or all of its trailing \<^verbatim>\<open>=\<close>, and take a response object whose top-level \<^verbatim>\<open>audio\<close>
  is \<open>s\<close>. When \<open>b\<close> is not empty, extraction returns exactly \<open>b\<close>. When \<open>b\<close> is empty,
  \<open>s\<close> is the empty string, which counts as a missing field: extraction returns
  \<^verbatim>\<open>None\<close> when there is no non-empty \<^verbatim>\<open>output[0].audio\<close> string to fall back on.
\<close>

theorem base64_round_trip:
  assumes "s @ replicate k CHR ''='' = b64encode b"
    and "dict_get d ''audio'' = JStr s"
  shows "(b \<noteq> [] \<longrightarrow> extract_base64_audio (JDict d) = Inr (Some b))
       \<and> (b = [] \<longrightarrow> (output_audio_string d = None \<or> output_audio_string d = Some []) \<longrightarrow>
            extract_base64_audio (JDict d) = Inr None)"
proof (intro conjI impI)
  assume b: "b \<noteq> []"
  have pad: "fix_padding (strip_data_url s) = b64encode b" and ne: "s \<noteq> []"
    using fix_padding_restores [OF assms(1) b] by simp_all
  from ne assms(2) have "select_audio_field d = JStr s"
    by (simp add: select_audio_field_truthy)
  with ne pad show "extract_base64_audio (JDict d) = Inr (Some b)"
    by (simp add: extract_base64_audio_def decode_audio_field_def b64decode_b64encode)
next
  assume "b = []"
    and out: "output_audio_string d = None \<or> output_audio_string d = Some []"
  with assms(1) have "s = []" by simp
  with assms(2) have "top_level_audio_string d = Some []"
    by (auto simp: top_level_audio_string_def dict_get_def split: option.splits)
  then have "decode_audio_field (select_audio_field d) = None"
    using out by (simp add: no_shape_no_field)
  then show "extract_base64_audio (JDict d) = Inr None"
    by (simp add: extract_base64_audio_def)
qed

theorem base64_round_trip_witness:
  "[65, 66] \<noteq> ([] :: bytes)
   \<and> ''QUI'' @ replicate 1 CHR ''='' = b64encode [65, 66]
   \<and> dict_get [(''audio'', JStr ''QUI'')] ''audio'' = JStr ''QUI''
   \<and> extract_base64_audio (JDict [(''audio'', JStr ''QUI'')]) = Inr (Some [65, 66])
   \<and> ''QUI='' @ replicate 0 CHR ''='' = b64encode [65, 66]
   \<and> extract_base64_audio (JDict [(''audio'', JStr ''QUI='')]) = Inr (Some [65, 66])
   \<and> [] @ replicate 0 CHR ''='' = b64encode []
   \<and> dict_get [(''audio'', JStr [])] ''audio'' = JStr []
   \<and> output_audio_string [(''audio'', JStr [])] = None
   \<and> extract_base64_audio (JDict [(''audio'', JStr [])]) = Inr None"
proof -
  have enc: "b64encode [65, 66] = ''QUI=''"
    by (simp add: b2a_def table_b2a_base64_def)
  have e1: "''QUI'' @ replicate 1 CHR ''='' = b64encode [65, 66]"
    and e0: "''QUI='' @ replicate 0 CHR ''='' = b64encode [65, 66]"
    unfolding enc by simp_all
  have d1: "dict_get [(''audio'', JStr ''QUI'')] ''audio'' = JStr ''QUI''"
    and d0: "dict_get [(''audio'', JStr ''QUI='')] ''audio'' = JStr ''QUI=''"
    by (simp_all add: dict_get_def)
  have ne: "[65, 66] \<noteq> ([] :: bytes)" by simp
  have ee: "[] @ replicate 0 CHR ''='' = b64encode []" by simp
  have de: "dict_get [(''audio'', JStr [])] ''audio'' = JStr []"
    by (simp add: dict_get_def)
  have oe: "output_audio_string [(''audio'', JStr [])] = None"
    by (simp add: output_audio_string_def)
  show ?thesis
    using base64_round_trip [OF e1 d1] base64_round_trip [OF e0 d0]
      base64_round_trip [OF ee de] ne e1 e0 d1 ee de oe
    by simp
qed

text \<open>
  The empty byte string: its encoding is the empty string, which is falsy on lines 46
  and 51; in an object with no \<^verbatim>\<open>output\<close> extraction returns \<^verbatim>\<open>None\<close> and not the
  empty bytes.
\<close>

theorem empty_payload_counterexample:
  "b64encode [] = []
   \<and> extract_base64_audio (JDict [(''audio'', JStr (b64encode []))]) = Inr None
   \<and> extract_base64_audio (JDict [(''audio'', JStr (b64encode []))]) \<noteq> Inr (Some [])"
  by (simp add: extract_base64_audio_def select_audio_field_def dict_get_def
      decode_audio_field_def)

end
